theory Spec2Isabelle
  imports Main "HOL-Library.Multiset"
begin

section \<open>Data model of the chocolate packing game\<close>

text \<open>
  The game is a React application: \<^verbatim>\<open>App\<close> owns the run state (\<^verbatim>\<open>GameState\<close>) and
  \<^verbatim>\<open>GamePage\<close> owns the state of the level being played. Every \<^verbatim>\<open>useState\<close> cell is a
  field of a record, every handler is a function from the state before to the state after.

  The user-visible texts of the source are Persian string literals. The theory is written
  in ASCII, so each literal is rendered by an English string that stands for it; no
  property below depends on the wording of a text, only on which literal was set.
\<close>

datatype ChocolateType = cocoa | orange | strawberry

record ChocolateItem =
  choc_id :: string
  choc_type :: ChocolateType
  placed :: bool

record BoxItem =
  box_id :: string
  box_chocolates :: "ChocolateItem list"
  box_color :: "string option"

record GameState =
  currentLevel :: int
  score :: int
  isPlaying :: bool
  totalScore :: int

record Level =
  lv_chocolates :: nat
  lv_name :: string
  presetBoxes :: bool
  specialMessage :: "string option"

record ColorDef =
  col_color :: string
  col_name :: string

datatype GamePhase = packing | coloring | completed | pixi

text \<open>
  Two effects of the handlers leave the component: calls of the sound manager and
  callbacks handed to \<^verbatim>\<open>setTimeout\<close>. Both are kept as logs in the state, so that a
  handler that plays nothing and schedules nothing is one that returns these logs
  unchanged, and a scheduled callback is visibly separate from what the handler does
  at once.
\<close>

datatype Sound =
  SuccessSound | ErrorSound | DropSound | ColorSound | CompleteSound | ClickSound
  | VoiceMessage string

datatype Callback = ClearMessage

record GamePage =
  chocolates :: "ChocolateItem list"
  boxes :: "BoxItem list"
  gamePhase :: GamePhase
  showNPC :: bool
  message :: string
  selectedColor :: "ColorDef option"
  sounds :: "Sound list"
  timeouts :: "(nat \<times> Callback) list"

subsection \<open>Constants\<close>

definition LEVELS :: "Level list" where
  "LEVELS =
    [\<lparr>lv_chocolates = 6, lv_name = ''Stage one'', presetBoxes = True, specialMessage = None\<rparr>,
     \<lparr>lv_chocolates = 8, lv_name = ''Stage two'', presetBoxes = False, specialMessage = None\<rparr>,
     \<lparr>lv_chocolates = 12, lv_name = ''Stage three'', presetBoxes = False,
       specialMessage = None\<rparr>,
     \<lparr>lv_chocolates = 7, lv_name = ''Stage four'', presetBoxes = False,
       specialMessage = Some ''The new order is 7 chocolates, take care when dividing.''\<rparr>]"

definition CHOCOLATE_TYPES :: "ChocolateType list" where
  "CHOCOLATE_TYPES = [cocoa, orange, strawberry]"

definition COLORS :: "ColorDef list" where
  "COLORS =
    [\<lparr>col_color = ''#8B4513'', col_name = ''chocolate''\<rparr>,
     \<lparr>col_color = ''#FF8C00'', col_name = ''orange''\<rparr>,
     \<lparr>col_color = ''#DC143C'', col_name = ''strawberry''\<rparr>]"

subsection \<open>JavaScript primitives\<close>

text \<open>
  Reading an array at an index outside \<open>0 .. length - 1\<close> yields \<^verbatim>\<open>undefined\<close> in
  JavaScript; \<open>None\<close> stands for it.
\<close>

definition jsIndex :: "'a list \<Rightarrow> int \<Rightarrow> 'a option" where
  "jsIndex xs i = (if 0 \<le> i \<and> i < int (length xs) then Some (xs ! nat i) else None)"

text \<open>The decimal text of a natural number, as a template literal prints it.\<close>

definition digitChar :: "nat \<Rightarrow> char" where
  "digitChar d = ''0123456789'' ! d"

fun showNat :: "nat \<Rightarrow> string" where
  "showNat n = (if n < 10 then [digitChar n] else showNat (n div 10) @ [digitChar (n mod 10)])"

declare showNat.simps [simp del]

text \<open>A string or null is truthy when it is a non-empty string.\<close>

definition truthy :: "string option \<Rightarrow> bool" where
  "truthy v = (case v of None \<Rightarrow> False | Some str \<Rightarrow> str \<noteq> [])"

section \<open>The run state (App)\<close>

definition initialGameState :: GameState where
  "initialGameState = \<lparr>currentLevel = 1, score = 0, isPlaying = False, totalScore = 0\<rparr>"

definition startGame :: "GameState \<Rightarrow> GameState" where
  "startGame prev = prev\<lparr>isPlaying := True, currentLevel := 1, score := 0\<rparr>"

definition nextLevel :: "GameState \<Rightarrow> GameState" where
  "nextLevel prev = prev\<lparr>currentLevel := min (currentLevel prev + 1) 4\<rparr>"

definition resetGame :: "GameState \<Rightarrow> GameState" where
  "resetGame prev = prev\<lparr>currentLevel := 1, score := 0, isPlaying := True\<rparr>"

definition awardPoints :: "int \<Rightarrow> GameState \<Rightarrow> GameState" where
  "awardPoints points prev = prev\<lparr>score := score prev + points\<rparr>"

definition completeRun :: "GameState \<Rightarrow> GameState" where
  "completeRun prev = prev\<lparr>totalScore := totalScore prev + score prev\<rparr>"

text \<open>The callbacks \<^verbatim>\<open>App\<close> passes to \<^verbatim>\<open>GamePage\<close>; \<^verbatim>\<open>onAwardPoints\<close> is optional.\<close>

record GamePageProps =
  onNextLevel :: "GameState \<Rightarrow> GameState"
  onResetGame :: "GameState \<Rightarrow> GameState"
  onCompleteRun :: "GameState \<Rightarrow> GameState"
  onAwardPoints :: "(int \<Rightarrow> GameState \<Rightarrow> GameState) option"

definition appProps :: GamePageProps where
  "appProps = \<lparr>onNextLevel = nextLevel, onResetGame = resetGame,
     onCompleteRun = completeRun, onAwardPoints = Some awardPoints\<rparr>"

section \<open>The level being played (GamePage)\<close>

subsection \<open>Level lookup\<close>

text \<open>
  \<^verbatim>\<open>LEVELS[gameState.currentLevel - 1] || LEVELS[LEVELS.length - 1]\<close>: every entry of
  \<open>LEVELS\<close> is an object, hence truthy, so the right operand is taken exactly when the
  left read is \<^verbatim>\<open>undefined\<close>. \<open>levelLookup\<close> keeps \<^verbatim>\<open>undefined\<close> as a possible result.
\<close>

definition levelLookup :: "int \<Rightarrow> Level option" where
  "levelLookup l =
    (case jsIndex LEVELS (l - 1) of
       Some lv \<Rightarrow> Some lv
     | None \<Rightarrow> jsIndex LEVELS (int (length LEVELS) - 1))"

definition currentLevelData :: "GameState \<Rightarrow> Level" where
  "currentLevelData gs = the (levelLookup (currentLevel gs))"

subsection \<open>Level initialisation\<close>

text \<open>
  \<^verbatim>\<open>initializeLevel\<close> pushes, for each chocolate type in turn, \<open>count\<close> new items whose
  ids continue one counter. The list is then shuffled by a sort with a random comparator:
  the order it leaves is not determined by the program, so the shuffle is a parameter.
  \<^verbatim>\<open>Date.now()\<close> is a parameter as well (its value at each turn of the loop).
\<close>

primrec makeChocolates :: "ChocolateType \<Rightarrow> nat \<Rightarrow> nat \<Rightarrow> ChocolateItem list" where
  "makeChocolates t i 0 = []"
| "makeChocolates t i (Suc k) =
     \<lparr>choc_id = ''chocolate-'' @ showNat i, choc_type = t, placed = False\<rparr>
       # makeChocolates t (Suc i) k"

definition newChocolates :: "Level \<Rightarrow> ChocolateItem list" where
  "newChocolates lv =
    (let chocolatesPerType = lv_chocolates lv div 3;
         remainder = lv_chocolates lv mod 3
     in fst (foldl
          (\<lambda>(acc, i) (index, t).
             let count = chocolatesPerType + (if index < remainder then 1 else 0)
             in (acc @ makeChocolates t i count, i + count))
          ([], 0) (enumerate 0 CHOCOLATE_TYPES)))"

definition emptyBox :: "string \<Rightarrow> BoxItem" where
  "emptyBox b = \<lparr>box_id = b, box_chocolates = [], box_color = None\<rparr>"

definition initializeLevel ::
  "(ChocolateItem list \<Rightarrow> ChocolateItem list) \<Rightarrow> (nat \<Rightarrow> nat) \<Rightarrow> GameState \<Rightarrow> GamePage \<Rightarrow> GamePage"
where
  "initializeLevel shuffle now gs s =
    (let lv = currentLevelData gs;
         presetBoxCount = 2
     in s\<lparr>chocolates := shuffle (newChocolates lv),
          boxes := (if presetBoxes lv
                    then map (\<lambda>i. emptyBox (''box-'' @ showNat (now i) @ ''-'' @ showNat i))
                           [0..<presetBoxCount]
                    else []),
          gamePhase := packing,
          message := (if truthy (specialMessage lv) then the (specialMessage lv)
                      else showNat (lv_chocolates lv)
                        @ '' orders for the school party, we have to get them ready.'')\<rparr>)"

subsection \<open>Handlers\<close>

text \<open>
  \<^verbatim>\<open>addBox\<close> itself has no test of the level. The level decides which button is
  rendered: on a preset-box level the add-box button is rendered \<^verbatim>\<open>disabled\<close> and
  without a click handler, on the other levels it is rendered with \<^verbatim>\<open>onClick={addBox}\<close>
  under the test \<^verbatim>\<open>!currentLevelData.presetBoxes\<close>. \<open>clickAddBox\<close> is the click on the
  button that is rendered. The id of the new box is built from \<^verbatim>\<open>Date.now()\<close> and the
  text of \<^verbatim>\<open>Math.random()\<close>, both parameters.
\<close>

definition addBox :: "nat \<Rightarrow> string \<Rightarrow> GamePage \<Rightarrow> GamePage" where
  "addBox now rnd s =
    (let newBox = emptyBox (''box-'' @ showNat now @ ''-'' @ rnd)
     in s\<lparr>sounds := sounds s @ [ClickSound], boxes := boxes s @ [newBox]\<rparr>)"

definition clickAddBox :: "nat \<Rightarrow> string \<Rightarrow> GameState \<Rightarrow> GamePage \<Rightarrow> GamePage" where
  "clickAddBox now rnd gs s =
    (if presetBoxes (currentLevelData gs) then s
     else if \<not> presetBoxes (currentLevelData gs) then addBox now rnd s
     else s)"

definition clearBoxes :: "GameState \<Rightarrow> GamePage \<Rightarrow> GamePage" where
  "clearBoxes gs s =
    (if presetBoxes (currentLevelData gs) then s
     else s\<lparr>sounds := sounds s @ [ClickSound],
            boxes := [],
            chocolates := map (\<lambda>c. c\<lparr>placed := False\<rparr>) (chocolates s),
            selectedColor := None,
            gamePhase := packing\<rparr>)"

definition handleDropChocolate :: "string \<Rightarrow> ChocolateItem \<Rightarrow> GamePage \<Rightarrow> GamePage" where
  "handleDropChocolate boxId chocolate s =
    (if placed chocolate then s
     else s\<lparr>sounds := sounds s @ [DropSound],
            chocolates :=
              map (\<lambda>c. if choc_id c = choc_id chocolate then c\<lparr>placed := True\<rparr> else c)
                (chocolates s),
            boxes :=
              map (\<lambda>box. if box_id box = boxId
                          then box\<lparr>box_chocolates := box_chocolates box @ [chocolate]\<rparr>
                          else box)
                (boxes s)\<rparr>)"

definition handleDropColor :: "string \<Rightarrow> ColorDef \<Rightarrow> GamePage \<Rightarrow> GamePage" where
  "handleDropColor boxId color s =
    s\<lparr>sounds := sounds s @ [ColorSound],
      boxes := map (\<lambda>box. if box_id box = boxId then box\<lparr>box_color := Some (col_color color)\<rparr>
                          else box)
                 (boxes s)\<rparr>"

subsection \<open>The packing check\<close>

text \<open>
  The locals of \<^verbatim>\<open>checkPackingComplete\<close> are functions of the state, under the names
  the source gives them; \<open>packingComplete\<close> is the condition of its outer \<^verbatim>\<open>if\<close>.
  The source computes \<open>chocolatesPerBox\<close> and \<open>isEvenlyDistributed\<close> inside that
  \<^verbatim>\<open>if\<close> only, where there is at least one box, and the properties below use them
  only there: the quotient by an empty list of boxes is never relied on.
  In the branch of an uneven distribution on a level without preset boxes the source
  sets the error message, plays the error sound, hands \<^verbatim>\<open>setTimeout\<close> a callback that
  clears the message after 2000 ms, and then, in the same call, empties the boxes,
  unplaces the items, drops the colour selection and sets the phase.
\<close>

definition placedChocolates :: "GamePage \<Rightarrow> nat" where
  "placedChocolates s = length (filter placed (chocolates s))"

definition packingComplete :: "GameState \<Rightarrow> GamePage \<Rightarrow> bool" where
  "packingComplete gs s =
    (placedChocolates s = lv_chocolates (currentLevelData gs) \<and> length (boxes s) > 0)"

definition chocolatesPerBox :: "GameState \<Rightarrow> GamePage \<Rightarrow> nat" where
  "chocolatesPerBox gs s = lv_chocolates (currentLevelData gs) div length (boxes s)"

definition isEvenlyDistributed :: "GameState \<Rightarrow> GamePage \<Rightarrow> bool" where
  "isEvenlyDistributed gs s =
    list_all (\<lambda>box. length (box_chocolates box) = chocolatesPerBox gs s) (boxes s)"

definition checkPackingComplete :: "GameState \<Rightarrow> GamePage \<Rightarrow> GamePage" where
  "checkPackingComplete gs s =
    (if packingComplete gs s then
       (if isEvenlyDistributed gs s then
          s\<lparr>gamePhase := coloring,
            message := ''Well done, the chocolates are sorted; now pick a colour for each box.'',
            sounds := sounds s @ [SuccessSound]\<rparr>
        else if \<not> presetBoxes (currentLevelData gs) then
          s\<lparr>message := ''You divided them wrongly, divide the chocolates again.'',
            sounds := sounds s @ [ErrorSound],
            timeouts := timeouts s @ [(2000, ClearMessage)],
            boxes := map (\<lambda>box. box\<lparr>box_chocolates := [], box_color := None\<rparr>) (boxes s),
            chocolates := map (\<lambda>c. c\<lparr>placed := False\<rparr>) (chocolates s),
            selectedColor := None,
            gamePhase := packing\<rparr>
        else s)
     else s)"

text \<open>What a scheduled callback does when its delay has passed.\<close>

fun fire :: "Callback \<Rightarrow> GamePage \<Rightarrow> GamePage" where
  "fire ClearMessage s = s\<lparr>message := []\<rparr>"

subsection \<open>The colouring check\<close>

text \<open>
  \<^verbatim>\<open>boxes.every(box => box.color)\<close> tests each colour for truthiness. The two updates of
  the run state are functional updates queued in order, so \<^verbatim>\<open>onCompleteRun\<close> works on
  the state \<^verbatim>\<open>onAwardPoints\<close> leaves; the test of the level reads the state of the
  current render.
\<close>

definition coloringComplete :: "GamePage \<Rightarrow> bool" where
  "coloringComplete s = (length (boxes s) > 0 \<and> list_all (\<lambda>box. truthy (box_color box)) (boxes s))"

definition checkColoringComplete ::
  "GamePageProps \<Rightarrow> GameState \<times> GamePage \<Rightarrow> GameState \<times> GamePage"
where
  "checkColoringComplete props st =
    (let gs = fst st; s = snd st in
     if coloringComplete s then
       (let gs1 = (case onAwardPoints props of Some award \<Rightarrow> award 10 gs | None \<Rightarrow> gs);
            s1 = s\<lparr>gamePhase := completed,
                   message := ''Oh, how pretty! All the boxes look like a rainbow!'',
                   sounds := sounds s @ [CompleteSound,
                     VoiceMessage ''Oh, how pretty! All the boxes look like a rainbow!'']\<rparr>;
            gs2 = (if currentLevel gs = int (length LEVELS) then onCompleteRun props gs1 else gs1)
        in (gs2, s1))
     else (gs, s))"

text \<open>The effect that runs after every change of the items, the boxes or the phase.\<close>

definition checkEffect :: "GamePageProps \<Rightarrow> GameState \<times> GamePage \<Rightarrow> GameState \<times> GamePage" where
  "checkEffect props st =
    (if gamePhase (snd st) = packing then (fst st, checkPackingComplete (fst st) (snd st))
     else if gamePhase (snd st) = coloring then checkColoringComplete props st
     else st)"

subsection \<open>Sequences of operations\<close>

datatype PageOp =
  DropChocolate string ChocolateItem
  | AddBox nat string
  | ClearBoxes
  | DropColor string ColorDef
  | CheckPacking

fun pageStep :: "GameState \<Rightarrow> GamePage \<Rightarrow> PageOp \<Rightarrow> GamePage" where
  "pageStep gs s (DropChocolate boxId chocolate) = handleDropChocolate boxId chocolate s"
| "pageStep gs s (AddBox now rnd) = clickAddBox now rnd gs s"
| "pageStep gs s ClearBoxes = clearBoxes gs s"
| "pageStep gs s (DropColor boxId color) = handleDropColor boxId color s"
| "pageStep gs s CheckPacking = checkPackingComplete gs s"

definition runPage :: "GameState \<Rightarrow> PageOp list \<Rightarrow> GamePage \<Rightarrow> GamePage" where
  "runPage gs ops s = foldl (pageStep gs) s ops"

text \<open>
  The operations the rendered page offers: a drop is the drop of an item shown in the
  warehouse (an unplaced item of the pool) on a box that is shown, and a new box gets an
  id no other box has.
\<close>

fun offered :: "GamePage \<Rightarrow> PageOp \<Rightarrow> bool" where
  "offered s (DropChocolate boxId chocolate) =
     (boxId \<in> set (map box_id (boxes s)) \<and> chocolate \<in> set (chocolates s) \<and> \<not> placed chocolate)"
| "offered s (AddBox now rnd) =
     (''box-'' @ showNat now @ ''-'' @ rnd \<notin> set (map box_id (boxes s)))"
| "offered s _ = True"

fun allOffered :: "GameState \<Rightarrow> PageOp list \<Rightarrow> GamePage \<Rightarrow> bool" where
  "allOffered gs [] s = True"
| "allOffered gs (op # ops) s = (offered s op \<and> allOffered gs ops (pageStep gs s op))"

definition boxTotal :: "GamePage \<Rightarrow> nat" where
  "boxTotal s = sum_list (map (\<lambda>box. length (box_chocolates box)) (boxes s))"

definition unplacedChocolates :: "GamePage \<Rightarrow> ChocolateItem list" where
  "unplacedChocolates s = filter (\<lambda>c. \<not> placed c) (chocolates s)"

datatype AppOp = StartGame | AwardPoints int | NextLevel | ResetGame | CompleteRun

fun appStep :: "GameState \<Rightarrow> AppOp \<Rightarrow> GameState" where
  "appStep g StartGame = startGame g"
| "appStep g (AwardPoints points) = awardPoints points g"
| "appStep g NextLevel = nextLevel g"
| "appStep g ResetGame = resetGame g"
| "appStep g CompleteRun = completeRun g"

definition runApp :: "AppOp list \<Rightarrow> GameState \<Rightarrow> GameState" where
  "runApp ops g = foldl appStep g ops"

fun awarded :: "AppOp \<Rightarrow> int" where
  "awarded (AwardPoints points) = points"
| "awarded _ = 0"

subsection \<open>Sample plays\<close>

text \<open>
  Concrete states for the examples below. \<open>mkChocolate k t\<close> is the item with counter \<open>k\<close>
  as \<open>initializeLevel\<close> creates it, which is also the object a drop hands over; the pools
  are the items of levels 1, 2 and 4 in the order of creation. \<open>packed pool plan\<close> is the
  page after every item of the pool has been dropped, the items listed for a box on that
  box: the pool items are marked placed and each box holds the objects dropped on it.
\<close>

definition blankPage :: GamePage where
  "blankPage = \<lparr>chocolates = [], boxes = [], gamePhase = packing, showNPC = True,
     message = [], selectedColor = None, sounds = [], timeouts = []\<rparr>"

definition atLevel :: "int \<Rightarrow> GameState" where
  "atLevel l = \<lparr>currentLevel = l, score = 0, isPlaying = True, totalScore = 0\<rparr>"

definition fresh :: "int \<Rightarrow> GamePage" where
  "fresh l = initializeLevel (\<lambda>xs. xs) (\<lambda>i. 1000) (atLevel l) blankPage"

definition mkChocolate :: "nat \<Rightarrow> ChocolateType \<Rightarrow> ChocolateItem" where
  "mkChocolate k t = \<lparr>choc_id = ''chocolate-'' @ showNat k, choc_type = t, placed = False\<rparr>"

definition pool1 :: "ChocolateItem list" where
  "pool1 = [mkChocolate 0 cocoa, mkChocolate 1 cocoa, mkChocolate 2 orange, mkChocolate 3 orange,
     mkChocolate 4 strawberry, mkChocolate 5 strawberry]"

definition pool2 :: "ChocolateItem list" where
  "pool2 = [mkChocolate 0 cocoa, mkChocolate 1 cocoa, mkChocolate 2 cocoa, mkChocolate 3 orange,
     mkChocolate 4 orange, mkChocolate 5 orange, mkChocolate 6 strawberry, mkChocolate 7 strawberry]"

definition pool4 :: "ChocolateItem list" where
  "pool4 = [mkChocolate 0 cocoa, mkChocolate 1 cocoa, mkChocolate 2 cocoa, mkChocolate 3 orange,
     mkChocolate 4 orange, mkChocolate 5 strawberry, mkChocolate 6 strawberry]"

definition packed :: "ChocolateItem list \<Rightarrow> (string \<times> nat list) list \<Rightarrow> GamePage" where
  "packed pool plan =
    blankPage\<lparr>chocolates := map (\<lambda>c. c\<lparr>placed := True\<rparr>) pool,
      boxes := map (\<lambda>(boxId, ks).
                 \<lparr>box_id = boxId, box_chocolates = map (\<lambda>k. pool ! k) ks, box_color = None\<rparr>)
               plan\<rparr>"

text \<open>Level 1, the two preset boxes holding 3 and 3, and 4 and 2.\<close>

definition level1_3_3 :: GamePage where
  "level1_3_3 = packed pool1 [(''box-1000-0'', [0, 1, 2]), (''box-1000-1'', [3, 4, 5])]"

definition level1_4_2 :: GamePage where
  "level1_4_2 = packed pool1 [(''box-1000-0'', [0, 1, 2, 3]), (''box-1000-1'', [4, 5])]"

text \<open>Level 2, three boxes holding 3, 3 and 2.\<close>

definition level2_3_3_2 :: GamePage where
  "level2_3_3_2 = packed pool2 [(''box-2001-0.25'', [0, 1, 2]), (''box-2002-0.5'', [3, 4, 5]),
     (''box-2003-0.75'', [6, 7])]"

text \<open>Level 4, three boxes holding 3, 2 and 2.\<close>

definition level4_3_2_2 :: GamePage where
  "level4_3_2_2 = packed pool4 [(''box-2001-0.25'', [0, 1, 2]), (''box-2002-0.5'', [3, 4]),
     (''box-2003-0.75'', [5, 6])]"

text \<open>
  Level 4 in a run that has 30 points and a lifetime total of 100: one box holding all
  seven items, the packing check passed, the box coloured.
\<close>

definition lastLevelRun :: GameState where
  "lastLevelRun = \<lparr>currentLevel = 4, score = 30, isPlaying = True, totalScore = 100\<rparr>"

definition level4_coloured :: GamePage where
  "level4_coloured =
    handleDropColor ''box-2001-0.25'' (COLORS ! 1)
      (checkPackingComplete lastLevelRun
        (packed pool4 [(''box-2001-0.25'', [0, 1, 2, 3, 4, 5, 6])]))"

text \<open>
  On the fresh level 1: two drops on the preset boxes, each followed by the packing check;
  and a single drop on a box id that names no box.
\<close>

definition twoDrops :: "PageOp list" where
  "twoDrops = [DropChocolate ''box-1000-0'' (mkChocolate 0 cocoa), CheckPacking,
     DropChocolate ''box-1000-1'' (mkChocolate 3 orange), CheckPacking]"

definition strayDrop :: "PageOp list" where
  "strayDrop = [DropChocolate ''box-9'' (mkChocolate 0 cocoa)]"

text \<open>One pass through the four levels, as the page drives the run state.\<close>

definition fullRun :: "AppOp list" where
  "fullRun = [StartGame, AwardPoints 10, NextLevel, AwardPoints 10, NextLevel, AwardPoints 10,
     NextLevel, AwardPoints 10, CompleteRun, ResetGame]"

subsection \<open>The invariant of the page\<close>

text \<open>
  What the offered operations keep true of the page: the pool has the item count of the
  level, item ids and box ids are unique, and as many items are marked placed as the
  boxes hold.
\<close>

definition pageInv :: "GameState \<Rightarrow> GamePage \<Rightarrow> bool" where
  "pageInv gs s =
    (length (chocolates s) = lv_chocolates (currentLevelData gs)
     \<and> distinct (map choc_id (chocolates s))
     \<and> distinct (map box_id (boxes s))
     \<and> placedChocolates s = boxTotal s)"

section \<open>Level lookup is total\<close>

lemma length_LEVELS: "length LEVELS = 4"
  by (simp add: LEVELS_def)

lemma levelLookup_cases:
  "levelLookup l =
    Some (if l = 1 then LEVELS ! 0 else if l = 2 then LEVELS ! 1
          else if l = 3 then LEVELS ! 2 else LEVELS ! 3)"
proof -
  consider "l < 1" | "l = 1" | "l = 2" | "l = 3" | "l = 4" | "4 < l"
    by linarith
  then show ?thesis
    by cases (simp_all add: levelLookup_def jsIndex_def length_LEVELS)
qed

text \<open>
  Claim C8. The level lookup never fails: for every integer level index the lookup
  yields a defined level (never \<^verbatim>\<open>undefined\<close>), an index in \<open>1 .. 4\<close> yields the level at
  that position, and every index outside \<open>1 .. 4\<close> yields the last level, level 4 with
  its 7 chocolates.
\<close>

theorem level_lookup_never_fails:
  "(\<exists>lv. levelLookup l = Some lv \<and> lv \<in> set LEVELS)
   \<and> (1 \<le> l \<and> l \<le> 4 \<longrightarrow> levelLookup l = Some (LEVELS ! nat (l - 1)))
   \<and> (l < 1 \<or> 4 < l \<longrightarrow> levelLookup l = Some (last LEVELS) \<and> levelLookup l = levelLookup 4
        \<and> lv_chocolates (the (levelLookup l)) = 7)"
proof -
  have a: "\<exists>lv. levelLookup l = Some lv \<and> lv \<in> set LEVELS"
    by (simp add: levelLookup_cases) (simp add: LEVELS_def)
  have b: "1 \<le> l \<and> l \<le> 4 \<longrightarrow> levelLookup l = Some (LEVELS ! nat (l - 1))"
  proof
    assume "1 \<le> l \<and> l \<le> 4"
    then consider "l = 1" | "l = 2" | "l = 3" | "l = 4"
      by linarith
    then show "levelLookup l = Some (LEVELS ! nat (l - 1))"
      by cases (simp_all add: levelLookup_cases)
  qed
  have c: "l < 1 \<or> 4 < l \<longrightarrow> levelLookup l = Some (last LEVELS) \<and> levelLookup l = levelLookup 4
        \<and> lv_chocolates (the (levelLookup l)) = 7"
    by (auto simp add: levelLookup_cases) (simp_all add: LEVELS_def)
  from a b c show ?thesis by blast
qed

theorem level_lookup_never_fails_witness:
  "levelLookup 0 = Some (last LEVELS) \<and> levelLookup 9 = Some (last LEVELS)
   \<and> levelLookup (- 3) = levelLookup 4 \<and> lv_chocolates (the (levelLookup 0)) = 7
   \<and> levelLookup 2 = Some (LEVELS ! 1)"
proof -
  have "levelLookup 0 = Some (last LEVELS) \<and> lv_chocolates (the (levelLookup 0)) = 7"
    using level_lookup_never_fails [of 0] by auto
  moreover have "levelLookup 9 = Some (last LEVELS)"
    using level_lookup_never_fails [of 9] by auto
  moreover have "levelLookup (- 3) = levelLookup 4"
    using level_lookup_never_fails [of "- 3"] by auto
  moreover have "levelLookup 2 = Some (LEVELS ! 1)"
    using level_lookup_never_fails [of 2] by auto
  ultimately show ?thesis by blast
qed

section \<open>Facts about the level table\<close>

lemma currentLevelData_in: "currentLevelData gs \<in> set LEVELS"
  by (simp add: currentLevelData_def levelLookup_cases) (simp add: LEVELS_def)

lemma level_positive: "0 < lv_chocolates (currentLevelData gs)"
  using currentLevelData_in [of gs] by (auto simp: LEVELS_def)

lemma presetBoxes_iff: "presetBoxes (currentLevelData gs) \<longleftrightarrow> currentLevel gs = 1"
  by (simp add: currentLevelData_def levelLookup_cases) (simp add: LEVELS_def)

lemma level4_chocolates: "currentLevel gs = 4 \<Longrightarrow> lv_chocolates (currentLevelData gs) = 7"
  by (simp add: currentLevelData_def levelLookup_cases) (simp add: LEVELS_def)

section \<open>The packing check\<close>

lemma count_placed: "length (filter P xs) = count_list (map P xs) True"
  by (induction xs) auto

text \<open>
  Claim C1. For every game state the packing check takes its complete branch exactly when
  the number of items with \<open>placed = true\<close> equals the item count of the current level and
  at least one box exists; and when complete, it finds the distribution valid exactly
  when every box holds \<open>floor (itemCount / boxCount)\<close> items, \<open>boxCount\<close> being the
  current number of boxes. The verdict is what the check acts on: it changes nothing
  when the packing is not complete, and from the packing phase it moves to colouring
  exactly when the packing is complete and valid.
\<close>

theorem packing_check_verdict:
  "(packingComplete gs s \<longleftrightarrow>
      count_list (map placed (chocolates s)) True = lv_chocolates (currentLevelData gs)
      \<and> boxes s \<noteq> [])
   \<and> (packingComplete gs s \<longrightarrow>
        (isEvenlyDistributed gs s \<longleftrightarrow>
          (\<forall>box \<in> set (boxes s). length (box_chocolates box)
              = lv_chocolates (currentLevelData gs) div length (boxes s))))
   \<and> (checkPackingComplete gs s \<noteq> s \<longrightarrow> packingComplete gs s)
   \<and> (gamePhase s = packing \<longrightarrow>
        (gamePhase (checkPackingComplete gs s) = coloring
           \<longleftrightarrow> packingComplete gs s \<and> isEvenlyDistributed gs s))"
proof -
  have a: "packingComplete gs s \<longleftrightarrow>
      count_list (map placed (chocolates s)) True = lv_chocolates (currentLevelData gs)
      \<and> boxes s \<noteq> []"
    by (simp add: packingComplete_def placedChocolates_def count_placed)
  have b: "isEvenlyDistributed gs s \<longleftrightarrow>
      (\<forall>box \<in> set (boxes s). length (box_chocolates box)
          = lv_chocolates (currentLevelData gs) div length (boxes s))"
    by (simp add: isEvenlyDistributed_def chocolatesPerBox_def list_all_iff)
  have c: "checkPackingComplete gs s \<noteq> s \<longrightarrow> packingComplete gs s"
    by (simp add: checkPackingComplete_def)
  have d: "gamePhase s = packing \<longrightarrow>
      (gamePhase (checkPackingComplete gs s) = coloring
         \<longleftrightarrow> packingComplete gs s \<and> isEvenlyDistributed gs s)"
    by (simp add: checkPackingComplete_def)
  from a b c d show ?thesis by blast
qed

theorem packing_check_verdict_witness:
  "packingComplete (atLevel 1) level1_3_3 \<and> isEvenlyDistributed (atLevel 1) level1_3_3
   \<and> gamePhase (checkPackingComplete (atLevel 1) level1_3_3) = coloring
   \<and> packingComplete (atLevel 1) level1_4_2 \<and> \<not> isEvenlyDistributed (atLevel 1) level1_4_2
   \<and> \<not> packingComplete (atLevel 1) (fresh 1)"
proof -
  have h1: "count_list (map placed (chocolates level1_3_3)) True
      = lv_chocolates (currentLevelData (atLevel 1)) \<and> boxes level1_3_3 \<noteq> []"
    by code_simp
  have h2: "\<forall>box \<in> set (boxes level1_3_3). length (box_chocolates box)
      = lv_chocolates (currentLevelData (atLevel 1)) div length (boxes level1_3_3)"
    by code_simp
  have h3: "gamePhase level1_3_3 = packing"
    by code_simp
  have h4: "count_list (map placed (chocolates level1_4_2)) True
      = lv_chocolates (currentLevelData (atLevel 1)) \<and> boxes level1_4_2 \<noteq> []"
    by code_simp
  have h5: "\<not> (\<forall>box \<in> set (boxes level1_4_2). length (box_chocolates box)
      = lv_chocolates (currentLevelData (atLevel 1)) div length (boxes level1_4_2))"
    by code_simp
  have h6: "count_list (map placed (chocolates (fresh 1))) True
      \<noteq> lv_chocolates (currentLevelData (atLevel 1))"
    by code_simp
  show ?thesis
    using packing_check_verdict [of "atLevel 1" level1_3_3]
      packing_check_verdict [of "atLevel 1" level1_4_2]
      packing_check_verdict [of "atLevel 1" "fresh 1"] h1 h2 h3 h4 h5 h6
    by blast
qed

subsection \<open>A box count that does not divide the item count\<close>

lemma even_sum: "list_all (\<lambda>x. f x = (k::nat)) xs \<Longrightarrow> sum_list (map f xs) = length xs * k"
  by (induction xs) auto

lemma even_total:
  assumes "isEvenlyDistributed gs s"
  shows "boxTotal s
    = length (boxes s) * (lv_chocolates (currentLevelData gs) div length (boxes s))"
  using assms even_sum [of "\<lambda>box. length (box_chocolates box)" "chocolatesPerBox gs s" "boxes s"]
  by (simp add: isEvenlyDistributed_def boxTotal_def chocolatesPerBox_def)

lemma uneven_invalid:
  assumes "boxTotal s = lv_chocolates (currentLevelData gs)"
      and "lv_chocolates (currentLevelData gs) mod length (boxes s) \<noteq> 0"
  shows "\<not> isEvenlyDistributed gs s"
proof
  assume "isEvenlyDistributed gs s"
  then have "boxTotal s
      = length (boxes s) * (lv_chocolates (currentLevelData gs) div length (boxes s))"
    by (rule even_total)
  with assms(1) have "length (boxes s) dvd lv_chocolates (currentLevelData gs)"
    by (metis dvd_triv_left)
  with assms(2) show False by (simp add: dvd_eq_mod_eq_0)
qed

text \<open>
  Claim C2. For every arrangement of the items across the boxes in which all
  \<open>itemCount\<close> items are placed (the boxes together hold \<open>itemCount\<close> items and
  \<open>itemCount\<close> items are marked placed), if \<open>itemCount mod boxCount \<noteq> 0\<close> then the check
  is in its complete branch, finds the distribution not valid, and does not leave the
  packing phase. In particular on level 4, whose item count is 7, every arrangement of
  the seven items across 2, 3, 4, 5 or 6 boxes is found not valid.
\<close>

theorem uneven_box_count_rejected:
  "(boxTotal s = lv_chocolates (currentLevelData gs)
      \<and> placedChocolates s = lv_chocolates (currentLevelData gs)
      \<and> lv_chocolates (currentLevelData gs) mod length (boxes s) \<noteq> 0
     \<longrightarrow> packingComplete gs s \<and> \<not> isEvenlyDistributed gs s
         \<and> (gamePhase s = packing \<longrightarrow> gamePhase (checkPackingComplete gs s) = packing))
   \<and> (currentLevel gs = 4 \<and> boxTotal s = 7 \<and> length (boxes s) \<in> {2, 3, 4, 5, 6}
        \<longrightarrow> \<not> isEvenlyDistributed gs s)"
proof -
  have a: "packingComplete gs s \<and> \<not> isEvenlyDistributed gs s
      \<and> (gamePhase s = packing \<longrightarrow> gamePhase (checkPackingComplete gs s) = packing)"
    if h: "boxTotal s = lv_chocolates (currentLevelData gs)"
          "placedChocolates s = lv_chocolates (currentLevelData gs)"
          "lv_chocolates (currentLevelData gs) mod length (boxes s) \<noteq> 0"
  proof -
    have "boxes s \<noteq> []"
      using h(1) level_positive [of gs] by (auto simp: boxTotal_def)
    then have pc: "packingComplete gs s"
      using h(2) by (simp add: packingComplete_def)
    have ne: "\<not> isEvenlyDistributed gs s"
      using h(1) h(3) by (rule uneven_invalid)
    from pc ne show ?thesis
      by (simp add: checkPackingComplete_def)
  qed
  have b: "\<not> isEvenlyDistributed gs s"
    if h: "currentLevel gs = 4" "boxTotal s = 7" "length (boxes s) \<in> {2, 3, 4, 5, 6}"
  proof (rule uneven_invalid)
    show "boxTotal s = lv_chocolates (currentLevelData gs)"
      using h(1) h(2) by (simp add: level4_chocolates)
    show "lv_chocolates (currentLevelData gs) mod length (boxes s) \<noteq> 0"
      using h(1) h(3) by (auto simp: level4_chocolates)
  qed
  from a b show ?thesis by blast
qed

theorem uneven_box_count_rejected_witness:
  "boxTotal level4_3_2_2 = 7 \<and> placedChocolates level4_3_2_2 = 7
   \<and> length (boxes level4_3_2_2) = 3 \<and> currentLevel (atLevel 4) = 4
   \<and> \<not> isEvenlyDistributed (atLevel 4) level4_3_2_2
   \<and> packingComplete (atLevel 4) level4_3_2_2
   \<and> gamePhase (checkPackingComplete (atLevel 4) level4_3_2_2) = packing"
proof -
  have h1: "boxTotal level4_3_2_2 = 7 \<and> placedChocolates level4_3_2_2 = 7
      \<and> length (boxes level4_3_2_2) = 3"
    by code_simp
  have h2: "lv_chocolates (currentLevelData (atLevel 4)) = 7 \<and> currentLevel (atLevel 4) = 4"
    by code_simp
  have h3: "gamePhase level4_3_2_2 = packing"
    by code_simp
  have h4: "(7::nat) mod 3 \<noteq> 0"
    by simp
  show ?thesis
    using uneven_box_count_rejected [of level4_3_2_2 "atLevel 4"] h1 h2 h3 h4 by auto
qed

subsection \<open>A complete but uneven packing\<close>

text \<open>
  Claim C3, as the code has it. On any level other than the first (the levels without
  preset boxes), when the packing check finds the distribution complete but not valid,
  the check itself, at once, sets the error message, plays the error sound, replaces
  every box by an empty uncoloured box with the same id, sets the placed flag of every
  item to false, clears the colour selection and leaves the phase at packing. The only
  thing it defers is one callback, scheduled with a delay of 2000 ms, and all that
  callback does is clear the message.
\<close>

theorem invalid_packing_resets_at_once:
  "currentLevel gs \<noteq> 1 \<and> packingComplete gs s \<and> \<not> isEvenlyDistributed gs s \<longrightarrow>
     message (checkPackingComplete gs s)
       = ''You divided them wrongly, divide the chocolates again.''
   \<and> sounds (checkPackingComplete gs s) = sounds s @ [ErrorSound]
   \<and> timeouts (checkPackingComplete gs s) = timeouts s @ [(2000, ClearMessage)]
   \<and> boxes (checkPackingComplete gs s) = map (\<lambda>box. emptyBox (box_id box)) (boxes s)
   \<and> chocolates (checkPackingComplete gs s) = map (\<lambda>c. c\<lparr>placed := False\<rparr>) (chocolates s)
   \<and> boxTotal (checkPackingComplete gs s) = 0
   \<and> placedChocolates (checkPackingComplete gs s) = 0
   \<and> selectedColor (checkPackingComplete gs s) = None
   \<and> gamePhase (checkPackingComplete gs s) = packing
   \<and> fire ClearMessage (checkPackingComplete gs s) = (checkPackingComplete gs s)\<lparr>message := []\<rparr>"
  by (auto simp: presetBoxes_iff checkPackingComplete_def emptyBox_def boxTotal_def
      placedChocolates_def comp_def)

theorem invalid_packing_resets_at_once_witness:
  "currentLevel (atLevel 2) \<noteq> 1 \<and> packingComplete (atLevel 2) level2_3_3_2
   \<and> \<not> isEvenlyDistributed (atLevel 2) level2_3_3_2
   \<and> message (checkPackingComplete (atLevel 2) level2_3_3_2)
       = ''You divided them wrongly, divide the chocolates again.''
   \<and> boxTotal (checkPackingComplete (atLevel 2) level2_3_3_2) = 0
   \<and> placedChocolates (checkPackingComplete (atLevel 2) level2_3_3_2) = 0
   \<and> selectedColor (checkPackingComplete (atLevel 2) level2_3_3_2) = None
   \<and> gamePhase (checkPackingComplete (atLevel 2) level2_3_3_2) = packing"
proof -
  have h: "currentLevel (atLevel 2) \<noteq> 1 \<and> packingComplete (atLevel 2) level2_3_3_2
      \<and> \<not> isEvenlyDistributed (atLevel 2) level2_3_3_2"
    by code_simp
  then show ?thesis
    using invalid_packing_resets_at_once [of "atLevel 2" level2_3_3_2] by blast
qed

text \<open>
  Claim C3 as stated puts the reset after the delay. On level 2 with three boxes holding
  3, 3 and 2 of the eight items, the state the check returns, in which the one scheduled
  callback is still pending, already has every box empty and no item placed; and firing
  the callback changes neither the boxes nor the items.
\<close>

theorem reset_not_deferred_counterexample:
  "boxTotal level2_3_3_2 = 8 \<and> placedChocolates level2_3_3_2 = 8
   \<and> packingComplete (atLevel 2) level2_3_3_2
   \<and> \<not> isEvenlyDistributed (atLevel 2) level2_3_3_2
   \<and> timeouts level2_3_3_2 = []
   \<and> timeouts (checkPackingComplete (atLevel 2) level2_3_3_2) = [(2000, ClearMessage)]
   \<and> boxTotal (checkPackingComplete (atLevel 2) level2_3_3_2) = 0
   \<and> placedChocolates (checkPackingComplete (atLevel 2) level2_3_3_2) = 0
   \<and> boxes (fire ClearMessage (checkPackingComplete (atLevel 2) level2_3_3_2))
       = boxes (checkPackingComplete (atLevel 2) level2_3_3_2)
   \<and> chocolates (fire ClearMessage (checkPackingComplete (atLevel 2) level2_3_3_2))
       = chocolates (checkPackingComplete (atLevel 2) level2_3_3_2)"
  by code_simp

text \<open>
  Claim C4. On the first level, the one level with preset boxes, when the packing check
  finds the distribution complete but not valid, the check returns the state it was
  given: the items, the boxes, the selected colour, the message and the phase are
  unchanged, no sound is played and no callback is scheduled.
\<close>

theorem preset_level_invalid_unchanged:
  "(presetBoxes (currentLevelData gs) \<longleftrightarrow> currentLevel gs = 1)
   \<and> (currentLevel gs = 1 \<and> packingComplete gs s \<and> \<not> isEvenlyDistributed gs s
        \<longrightarrow> checkPackingComplete gs s = s)"
  by (simp add: presetBoxes_iff checkPackingComplete_def)

theorem preset_level_invalid_unchanged_witness:
  "currentLevel (atLevel 1) = 1 \<and> packingComplete (atLevel 1) level1_4_2
   \<and> \<not> isEvenlyDistributed (atLevel 1) level1_4_2
   \<and> checkPackingComplete (atLevel 1) level1_4_2 = level1_4_2"
proof -
  have h: "currentLevel (atLevel 1) = 1 \<and> packingComplete (atLevel 1) level1_4_2
      \<and> \<not> isEvenlyDistributed (atLevel 1) level1_4_2"
    by code_simp
  then show ?thesis
    using preset_level_invalid_unchanged [of "atLevel 1" level1_4_2] by blast
qed

section \<open>Dropping an item\<close>

lemma drop_unknown_box:
  "boxId \<notin> box_id ` set bs \<Longrightarrow> map (\<lambda>box. if box_id box = boxId then f box else box) bs = bs"
  by (induction bs) auto

text \<open>
  Claim C6, as the code has it. \<open>handleDropChocolate\<close> is a silent no-op (the whole state,
  sound log included, is unchanged) whenever the dropped item, the object handed to the
  call, is already marked placed. When the target box id names no existing box, the
  boxes are unchanged; but the drop is not a no-op for the items: whenever the dropped
  item is not marked placed, whatever the box id, the drop sound is played and every
  pool item with the id of the dropped item is marked placed.
\<close>

theorem drop_on_placed_or_unknown:
  "(placed chocolate \<longrightarrow> handleDropChocolate boxId chocolate s = s)
   \<and> (boxId \<notin> set (map box_id (boxes s))
        \<longrightarrow> boxes (handleDropChocolate boxId chocolate s) = boxes s)
   \<and> (\<not> placed chocolate \<longrightarrow>
        chocolates (handleDropChocolate boxId chocolate s)
          = map (\<lambda>c. if choc_id c = choc_id chocolate then c\<lparr>placed := True\<rparr> else c)
              (chocolates s)
        \<and> sounds (handleDropChocolate boxId chocolate s) = sounds s @ [DropSound])"
  by (simp add: handleDropChocolate_def drop_unknown_box)

theorem drop_on_placed_or_unknown_witness:
  "placed ((mkChocolate 0 cocoa)\<lparr>placed := True\<rparr>)
   \<and> handleDropChocolate ''box-1000-0'' ((mkChocolate 0 cocoa)\<lparr>placed := True\<rparr>) level1_3_3 = level1_3_3
   \<and> ''box-9'' \<notin> set (map box_id (boxes (fresh 1)))
   \<and> boxes (handleDropChocolate ''box-9'' (mkChocolate 0 cocoa) (fresh 1)) = boxes (fresh 1)
   \<and> \<not> placed (mkChocolate 0 cocoa)
   \<and> sounds (handleDropChocolate ''box-9'' (mkChocolate 0 cocoa) (fresh 1)) = sounds (fresh 1) @ [DropSound]"
proof -
  have h1: "placed ((mkChocolate 0 cocoa)\<lparr>placed := True\<rparr>)" by code_simp
  have h2: "''box-9'' \<notin> set (map box_id (boxes (fresh 1)))" by code_simp
  have h3: "\<not> placed (mkChocolate 0 cocoa)" by code_simp
  show ?thesis
    using drop_on_placed_or_unknown [of "(mkChocolate 0 cocoa)\<lparr>placed := True\<rparr>" "''box-1000-0''" level1_3_3]
      drop_on_placed_or_unknown [of "mkChocolate 0 cocoa" "''box-9''" "fresh 1"] h1 h2 h3
    by blast
qed

text \<open>
  Claim C6 as stated fails for the unknown box: on the fresh level 1, whose two boxes are
  \<open>box-1000-0\<close> and \<open>box-1000-1\<close>, a drop of the unplaced first item on the box id
  \<open>box-9\<close> marks that item placed, so the state of the items is changed.
\<close>

theorem drop_on_unknown_box_counterexample:
  "''box-9'' \<notin> set (map box_id (boxes (fresh 1)))
   \<and> \<not> placed (mkChocolate 0 cocoa)
   \<and> chocolates (fresh 1) ! 0 = mkChocolate 0 cocoa
   \<and> chocolates (handleDropChocolate ''box-9'' (mkChocolate 0 cocoa) (fresh 1)) ! 0
       = (mkChocolate 0 cocoa)\<lparr>placed := True\<rparr>
   \<and> handleDropChocolate ''box-9'' (mkChocolate 0 cocoa) (fresh 1) \<noteq> fresh 1"
  by code_simp

section \<open>Adding a box\<close>

text \<open>
  Claim C9. \<open>addBox\<close> appends exactly one new box with no chocolates and no colour to
  the boxes and leaves the items alone. It is allowed only on a level without preset
  boxes: there the add-box button runs \<open>addBox\<close>; on a level with preset boxes the
  add-box button is disabled, the click is silently rejected and the whole state, the
  boxes included, is unchanged.
\<close>

theorem add_box_gated_by_level:
  "boxes (addBox now rnd s)
     = boxes s @ [\<lparr>box_id = ''box-'' @ showNat now @ ''-'' @ rnd, box_chocolates = [],
                   box_color = None\<rparr>]
   \<and> chocolates (addBox now rnd s) = chocolates s
   \<and> (\<not> presetBoxes (currentLevelData gs) \<longrightarrow> clickAddBox now rnd gs s = addBox now rnd s)
   \<and> (presetBoxes (currentLevelData gs) \<longrightarrow> clickAddBox now rnd gs s = s)"
  by (simp add: clickAddBox_def addBox_def emptyBox_def)

theorem add_box_gated_by_level_witness:
  "\<not> presetBoxes (currentLevelData (atLevel 2))
   \<and> boxes (clickAddBox 2001 ''0.25'' (atLevel 2) (fresh 2))
       = [\<lparr>box_id = ''box-2001-0.25'', box_chocolates = [], box_color = None\<rparr>]
   \<and> presetBoxes (currentLevelData (atLevel 1))
   \<and> clickAddBox 2001 ''0.25'' (atLevel 1) (fresh 1) = fresh 1"
proof -
  have h1: "\<not> presetBoxes (currentLevelData (atLevel 2))"
    by code_simp
  have h2: "presetBoxes (currentLevelData (atLevel 1))"
    by code_simp
  have h3: "boxes (fresh 2) = []"
    by code_simp
  have h4: "showNat 2001 = ''2001''"
    by code_simp
  have a: "boxes (clickAddBox 2001 ''0.25'' (atLevel 2) (fresh 2))
      = boxes (fresh 2) @ [\<lparr>box_id = ''box-'' @ showNat 2001 @ ''-'' @ ''0.25'',
          box_chocolates = [], box_color = None\<rparr>]"
    using add_box_gated_by_level [of 2001 "''0.25''" "fresh 2" "atLevel 2"] h1 by metis
  have b: "clickAddBox 2001 ''0.25'' (atLevel 1) (fresh 1) = fresh 1"
    using add_box_gated_by_level [of 2001 "''0.25''" "fresh 1" "atLevel 1"] h2 by blast
  from a b h1 h2 h3 h4 show ?thesis
    by simp
qed

section \<open>Scores\<close>

text \<open>
  Claim C7. When colouring completes (there is a box, and every box has a colour that is
  not null; the colours a drop sets are never the empty string), the phase becomes
  completed and the fixed 10 points of the level are added to the run score. If the
  current level is the last one, level 4, the run score is folded into the lifetime total
  by exactly one \<open>completeRun\<close>, applied after the award, so that the total afterwards is
  the total before plus the run score (the score with this level's points). On the other
  levels the total is unchanged. The effect that ran the check finds the phase completed
  afterwards and does nothing more, so the fold is not repeated.
\<close>

theorem coloring_complete_scores:
  "boxes s \<noteq> [] \<and> (\<forall>box \<in> set (boxes s). box_color box \<noteq> None \<and> box_color box \<noteq> Some [])
   \<longrightarrow> coloringComplete s
     \<and> gamePhase (snd (checkColoringComplete appProps (gs, s))) = completed
     \<and> score (fst (checkColoringComplete appProps (gs, s))) = score gs + 10
     \<and> (currentLevel gs = 4 \<longrightarrow>
          fst (checkColoringComplete appProps (gs, s)) = completeRun (awardPoints 10 gs)
          \<and> totalScore (fst (checkColoringComplete appProps (gs, s)))
              = totalScore gs + score (fst (checkColoringComplete appProps (gs, s))))
     \<and> (currentLevel gs \<noteq> 4 \<longrightarrow>
          totalScore (fst (checkColoringComplete appProps (gs, s))) = totalScore gs)
     \<and> (gamePhase s = coloring \<longrightarrow>
          checkEffect appProps (gs, s) = checkColoringComplete appProps (gs, s))
     \<and> checkEffect appProps (checkColoringComplete appProps (gs, s))
          = checkColoringComplete appProps (gs, s)"
proof -
  have cc: "coloringComplete s"
    if "boxes s \<noteq> []" "\<forall>box \<in> set (boxes s). box_color box \<noteq> None \<and> box_color box \<noteq> Some []"
    using that by (auto simp: coloringComplete_def list_all_iff truthy_def split: option.splits)
  show ?thesis
    using cc
    by (auto simp: checkColoringComplete_def checkEffect_def appProps_def Let_def length_LEVELS
        awardPoints_def completeRun_def)
qed

theorem coloring_complete_scores_witness:
  "boxes level4_coloured \<noteq> []
   \<and> gamePhase level4_coloured = coloring
   \<and> currentLevel lastLevelRun = 4 \<and> score lastLevelRun = 30 \<and> totalScore lastLevelRun = 100
   \<and> gamePhase (snd (checkColoringComplete appProps (lastLevelRun, level4_coloured))) = completed
   \<and> score (fst (checkColoringComplete appProps (lastLevelRun, level4_coloured))) = 40
   \<and> totalScore (fst (checkColoringComplete appProps (lastLevelRun, level4_coloured))) = 140"
proof -
  have h1: "boxes level4_coloured \<noteq> [] \<and> gamePhase level4_coloured = coloring" by code_simp
  have h2: "\<forall>box \<in> set (boxes level4_coloured). box_color box \<noteq> None \<and> box_color box \<noteq> Some []"
    by code_simp
  have h3: "currentLevel lastLevelRun = 4 \<and> score lastLevelRun = 30 \<and> totalScore lastLevelRun = 100"
    by code_simp
  show ?thesis
    using coloring_complete_scores [of level4_coloured lastLevelRun] h1 h2 h3 by auto
qed

lemma app_inv:
  "0 \<le> score g \<Longrightarrow> list_all (\<lambda>op. 0 \<le> awarded op) ops
    \<Longrightarrow> 0 \<le> score (foldl appStep g ops) \<and> totalScore g \<le> totalScore (foldl appStep g ops)"
proof (induction ops arbitrary: g)
  case Nil
  then show ?case by simp
next
  case (Cons op ops)
  have s: "0 \<le> score (appStep g op)" and t: "totalScore g \<le> totalScore (appStep g op)"
    using Cons.prems
    by (cases op; simp add: startGame_def awardPoints_def nextLevel_def resetGame_def completeRun_def)+
  from Cons.IH [OF s] Cons.prems(2) t show ?case
    by fastforce
qed

text \<open>
  Claim C10. Over every sequence of the operations \<open>startGame\<close>, \<open>awardPoints\<close>,
  \<open>nextLevel\<close>, \<open>resetGame\<close> and \<open>completeRun\<close> that starts from the initial run state and
  awards no negative points (the page only ever awards 10), the lifetime total never
  decreases from one point of the sequence to any later one, and the run score is never
  negative. The only operation that changes the total is \<open>completeRun\<close>, which adds the
  run score; the run score is changed only by an award, which adds the points, and by
  \<open>startGame\<close> and \<open>resetGame\<close>, which set it to 0.
\<close>

theorem total_score_monotone:
  "(list_all (\<lambda>op. 0 \<le> awarded op) (ops1 @ ops2) \<longrightarrow>
      totalScore (runApp ops1 initialGameState) \<le> totalScore (runApp (ops1 @ ops2) initialGameState)
      \<and> 0 \<le> score (runApp ops1 initialGameState))
   \<and> (op \<noteq> CompleteRun \<longrightarrow> totalScore (appStep g op) = totalScore g)
   \<and> totalScore (appStep g CompleteRun) = totalScore g + score g
   \<and> score (appStep g (AwardPoints points)) = score g + points
   \<and> (op \<in> {StartGame, ResetGame} \<longrightarrow> score (appStep g op) = 0)
   \<and> (op \<in> {NextLevel, CompleteRun} \<longrightarrow> score (appStep g op) = score g)"
proof -
  have a: "totalScore (runApp ops1 initialGameState) \<le> totalScore (runApp (ops1 @ ops2) initialGameState)
      \<and> 0 \<le> score (runApp ops1 initialGameState)"
    if h: "list_all (\<lambda>op. 0 \<le> awarded op) (ops1 @ ops2)"
  proof -
    have i: "0 \<le> score initialGameState" by (simp add: initialGameState_def)
    have 1: "0 \<le> score (runApp ops1 initialGameState)"
      using app_inv [OF i, of ops1] h by (simp add: runApp_def)
    have 2: "totalScore (runApp ops1 initialGameState) \<le> totalScore (runApp (ops1 @ ops2) initialGameState)"
      using app_inv [OF 1, of ops2] h by (simp add: runApp_def)
    from 1 2 show ?thesis by simp
  qed
  have b: "(op \<noteq> CompleteRun \<longrightarrow> totalScore (appStep g op) = totalScore g)"
    by (cases op; simp add: startGame_def awardPoints_def nextLevel_def resetGame_def)
  have c: "totalScore (appStep g CompleteRun) = totalScore g + score g"
    by (simp add: completeRun_def)
  have d: "score (appStep g (AwardPoints points)) = score g + points"
    by (simp add: awardPoints_def)
  have e: "(op \<in> {StartGame, ResetGame} \<longrightarrow> score (appStep g op) = 0)"
    by (auto simp add: startGame_def resetGame_def)
  have f: "(op \<in> {NextLevel, CompleteRun} \<longrightarrow> score (appStep g op) = score g)"
    by (auto simp add: nextLevel_def completeRun_def)
  from a b c d e f show ?thesis by blast
qed

theorem total_score_monotone_witness:
  "list_all (\<lambda>op. 0 \<le> awarded op) (fullRun @ fullRun)
   \<and> totalScore (runApp fullRun initialGameState) = 40
   \<and> totalScore (runApp (fullRun @ fullRun) initialGameState) = 80
   \<and> score (runApp fullRun initialGameState) = 0
   \<and> totalScore (runApp fullRun initialGameState) \<le> totalScore (runApp (fullRun @ fullRun) initialGameState)"
proof -
  have h: "list_all (\<lambda>op. 0 \<le> awarded op) (fullRun @ fullRun)" by code_simp
  have v: "totalScore (runApp fullRun initialGameState) = 40
   \<and> totalScore (runApp (fullRun @ fullRun) initialGameState) = 80
   \<and> score (runApp fullRun initialGameState) = 0" by code_simp
  show ?thesis
    using total_score_monotone [of fullRun fullRun] h v by blast
qed

section \<open>The counting invariant\<close>

lemma new_pools:
  "list_all (\<lambda>lv. length (newChocolates lv) = lv_chocolates lv
      \<and> distinct (map choc_id (newChocolates lv))
      \<and> list_all (\<lambda>c. \<not> placed c) (newChocolates lv)) LEVELS"
  by code_simp

lemma new_pool:
  "length (newChocolates (currentLevelData gs)) = lv_chocolates (currentLevelData gs)"
  "distinct (map choc_id (newChocolates (currentLevelData gs)))"
  "filter placed (newChocolates (currentLevelData gs)) = []"
  using new_pools currentLevelData_in [of gs]
  by (auto simp: list_all_iff filter_empty_conv)

lemma snoc2_eq: "xs @ [a, b] = ys @ [c, d] \<longleftrightarrow> xs = ys \<and> a = c \<and> b = d"
proof -
  have "xs @ [a, b] = (xs @ [a]) @ [b]" "ys @ [c, d] = (ys @ [c]) @ [d]"
    by simp_all
  then show ?thesis
    by (metis append1_eq_conv)
qed

lemma preset_ids_distinct:
  "''box-'' @ showNat a @ ''-'' @ showNat 0 \<noteq> ''box-'' @ showNat b @ ''-'' @ showNat (Suc 0)"
proof -
  have "showNat 0 = ''0''" "showNat (Suc 0) = ''1''"
    by (simp_all add: showNat.simps digitChar_def)
  then show ?thesis
    by (simp add: snoc2_eq)
qed

lemma shuffled:
  assumes "mset ys = mset xs"
  shows "length ys = length xs"
    and "distinct (map f ys) \<longleftrightarrow> distinct (map f xs)"
    and "filter P xs = [] \<Longrightarrow> filter P ys = []"
proof -
  show "length ys = length xs"
    using assms by (rule mset_eq_length)
  have "mset (map f ys) = mset (map f xs)"
    using assms by simp
  then show "distinct (map f ys) \<longleftrightarrow> distinct (map f xs)"
    by (rule mset_eq_imp_distinct_iff)
  show "filter P ys = []" if "filter P xs = []"
    using that mset_eq_setD [OF assms] by (simp add: filter_empty_conv)
qed

lemma init_inv:
  assumes "mset (shuffle (newChocolates (currentLevelData gs))) = mset (newChocolates (currentLevelData gs))"
  shows "pageInv gs (initializeLevel shuffle now gs s0)"
proof -
  note sh = shuffled [OF assms]
  have "[0..<2] = [0, Suc 0]"
    by (simp add: upt_rec numeral_2_eq_2)
  then show ?thesis
    using sh(1) sh(2) [of choc_id] sh(3) [of placed] new_pool [of gs] preset_ids_distinct
    by (simp add: pageInv_def initializeLevel_def Let_def placedChocolates_def boxTotal_def
        emptyBox_def)
qed

lemma drop_box_total:
  "distinct (map box_id bs) \<Longrightarrow> boxId \<in> box_id ` set bs \<Longrightarrow>
    sum_list (map (\<lambda>box. length (box_chocolates box))
      (map (\<lambda>box. if box_id box = boxId
                  then box\<lparr>box_chocolates := box_chocolates box @ [c]\<rparr> else box) bs))
    = Suc (sum_list (map (\<lambda>box. length (box_chocolates box)) bs))"
proof (induction bs)
  case Nil
  then show ?case by simp
next
  case (Cons b bs)
  show ?case
  proof (cases "box_id b = boxId")
    case True
    then have "boxId \<notin> box_id ` set bs"
      using Cons.prems(1) by auto
    then show ?thesis
      using True by (simp add: drop_unknown_box)
  next
    case False
    then show ?thesis
      using Cons by auto
  qed
qed

lemma unmarked: "x \<notin> f ` set cs \<Longrightarrow> map (\<lambda>c. if f c = x then g c else c) cs = cs"
  by (induction cs) auto

lemma drop_placed_count:
  "distinct (map choc_id cs) \<Longrightarrow> c \<in> set cs \<Longrightarrow> \<not> placed c \<Longrightarrow>
    length (filter placed
      (map (\<lambda>x. if choc_id x = choc_id c then x\<lparr>placed := True\<rparr> else x) cs))
    = Suc (length (filter placed cs))"
proof (induction cs)
  case Nil
  then show ?case by simp
next
  case (Cons a cs)
  show ?case
  proof (cases "a = c")
    case True
    then have "choc_id c \<notin> choc_id ` set cs"
      using Cons.prems(1) by auto
    then show ?thesis
      using True Cons.prems(3) by (simp add: unmarked)
  next
    case False
    then have "c \<in> set cs"
      using Cons.prems(2) by simp
    moreover from this have "choc_id a \<noteq> choc_id c"
      using Cons.prems(1) by auto
    ultimately show ?thesis
      using Cons by simp
  qed
qed

lemma placed_ids_kept:
  "map choc_id (map (\<lambda>x. if P x then x\<lparr>placed := v\<rparr> else x) cs) = map choc_id cs"
  by (induction cs) auto

lemma filled_ids_kept:
  "map box_id (map (\<lambda>b. if Q b then b\<lparr>box_chocolates := w b\<rparr> else b) bs) = map box_id bs"
  by (induction bs) auto

lemma coloured_ids_kept:
  "map box_id (map (\<lambda>b. if Q b then b\<lparr>box_color := u\<rparr> else b) bs) = map box_id bs"
  by (induction bs) auto

lemma coloured_sizes_kept:
  "map (\<lambda>b. length (box_chocolates b)) (map (\<lambda>b. if Q b then b\<lparr>box_color := u\<rparr> else b) bs)
    = map (\<lambda>b. length (box_chocolates b)) bs"
  by (induction bs) auto

lemma step_inv:
  assumes "pageInv gs s" and "offered s op"
  shows "pageInv gs (pageStep gs s op)"
proof (cases op)
  case (DropChocolate boxId c)
  then show ?thesis
    using assms
    by (simp add: pageInv_def handleDropChocolate_def placedChocolates_def boxTotal_def
        drop_box_total drop_placed_count placed_ids_kept filled_ids_kept
        del: map_map filter_map length_filter_map)
next
  case (AddBox now rnd)
  then show ?thesis
    using assms
    by (simp add: pageInv_def clickAddBox_def addBox_def placedChocolates_def boxTotal_def
        emptyBox_def)
next
  case ClearBoxes
  then show ?thesis
    using assms
    by (simp add: pageInv_def clearBoxes_def placedChocolates_def boxTotal_def comp_def)
next
  case (DropColor boxId color)
  then show ?thesis
    using assms
    by (simp add: pageInv_def handleDropColor_def placedChocolates_def boxTotal_def
        coloured_ids_kept coloured_sizes_kept del: map_map)
next
  case CheckPacking
  then show ?thesis
    using assms
    by (simp add: pageInv_def checkPackingComplete_def placedChocolates_def boxTotal_def comp_def)
qed

lemma run_inv:
  "pageInv gs s \<Longrightarrow> allOffered gs ops s \<Longrightarrow> pageInv gs (runPage gs ops s)"
  unfolding runPage_def
  by (induction ops arbitrary: s) (auto intro: step_inv)

lemma inv_counts:
  assumes "pageInv gs s"
  shows "boxTotal s + length (unplacedChocolates s) = lv_chocolates (currentLevelData gs)"
    and "placedChocolates s = boxTotal s"
proof -
  show p: "placedChocolates s = boxTotal s"
    using assms by (simp add: pageInv_def)
  have "length (filter placed (chocolates s)) + length (filter (\<lambda>c. \<not> placed c) (chocolates s))
      = length (chocolates s)"
    by (rule sum_length_filter_compl)
  then show "boxTotal s + length (unplacedChocolates s) = lv_chocolates (currentLevelData gs)"
    using assms p by (simp add: pageInv_def unplacedChocolates_def placedChocolates_def)
qed

lemma offered_prefix: "allOffered gs (before @ after) s \<Longrightarrow> allOffered gs before s"
  by (induction before arbitrary: s) auto

text \<open>
  Where the offered play has placed every item, the boxes hold all of them, so a box
  count that does not divide the item count is always found uneven there.
\<close>

lemma offered_play_uneven_rejected:
  assumes "mset (shuffle (newChocolates (currentLevelData gs)))
      = mset (newChocolates (currentLevelData gs))"
    and "allOffered gs ops (initializeLevel shuffle now gs s0)"
    and "placedChocolates (runPage gs ops (initializeLevel shuffle now gs s0))
      = lv_chocolates (currentLevelData gs)"
    and "lv_chocolates (currentLevelData gs)
      mod length (boxes (runPage gs ops (initializeLevel shuffle now gs s0))) \<noteq> 0"
  shows "\<not> isEvenlyDistributed gs (runPage gs ops (initializeLevel shuffle now gs s0))"
proof (rule uneven_invalid)
  have "pageInv gs (initializeLevel shuffle now gs s0)"
    using assms(1) by (rule init_inv)
  then have "pageInv gs (runPage gs ops (initializeLevel shuffle now gs s0))"
    using assms(2) by (rule run_inv)
  then show "boxTotal (runPage gs ops (initializeLevel shuffle now gs s0))
      = lv_chocolates (currentLevelData gs)"
    using assms(3) by (simp add: inv_counts(2))
  show "lv_chocolates (currentLevelData gs)
      mod length (boxes (runPage gs ops (initializeLevel shuffle now gs s0))) \<noteq> 0"
    by (rule assms(4))
qed

text \<open>
  Claim C5, as the code has it. Start from a freshly initialised level (the shuffle
  permutes the new pool) and run any sequence of drops, added boxes, cleared boxes,
  colour drops and packing checks in which every operation is one the page offers: each
  drop puts an item that is in the pool and not placed on a box that exists, and each
  added box gets an id no other box has. Then at every point of the sequence the number
  of items held by the boxes plus the number of items with \<open>placed = false\<close> equals the
  item count of the level, and the number of placed items equals the number of items
  held by the boxes.
\<close>

theorem counts_kept_by_offered_operations:
  "mset (shuffle (newChocolates (currentLevelData gs))) = mset (newChocolates (currentLevelData gs))
   \<and> allOffered gs (before @ after) (initializeLevel shuffle now gs s0)
   \<longrightarrow> boxTotal (runPage gs before (initializeLevel shuffle now gs s0))
         + length (unplacedChocolates (runPage gs before (initializeLevel shuffle now gs s0)))
       = lv_chocolates (currentLevelData gs)
     \<and> placedChocolates (runPage gs before (initializeLevel shuffle now gs s0))
       = boxTotal (runPage gs before (initializeLevel shuffle now gs s0))"
  using inv_counts [OF run_inv [OF init_inv offered_prefix]] by blast

theorem counts_kept_by_offered_operations_witness:
  "mset (rev (newChocolates (currentLevelData (atLevel 1))))
     = mset (newChocolates (currentLevelData (atLevel 1)))
   \<and> allOffered (atLevel 1) (twoDrops @ [ClearBoxes])
        (initializeLevel rev (\<lambda>i. 1000) (atLevel 1) blankPage)
   \<and> boxTotal (runPage (atLevel 1) twoDrops
        (initializeLevel rev (\<lambda>i. 1000) (atLevel 1) blankPage)) = 2
   \<and> length (unplacedChocolates (runPage (atLevel 1) twoDrops
        (initializeLevel rev (\<lambda>i. 1000) (atLevel 1) blankPage))) = 4
   \<and> placedChocolates (runPage (atLevel 1) twoDrops
        (initializeLevel rev (\<lambda>i. 1000) (atLevel 1) blankPage)) = 2"
proof -
  have h1: "mset (rev (newChocolates (currentLevelData (atLevel 1))))
     = mset (newChocolates (currentLevelData (atLevel 1)))"
    by simp
  have h2: "allOffered (atLevel 1) (twoDrops @ [ClearBoxes])
      (initializeLevel rev (\<lambda>i. 1000) (atLevel 1) blankPage)"
    by code_simp
  have h3: "boxTotal (runPage (atLevel 1) twoDrops
      (initializeLevel rev (\<lambda>i. 1000) (atLevel 1) blankPage)) = 2"
    by code_simp
  have h4: "lv_chocolates (currentLevelData (atLevel 1)) = 6"
    by code_simp
  show ?thesis
    using counts_kept_by_offered_operations
      [of rev "atLevel 1" twoDrops "[ClearBoxes]" "\<lambda>i. 1000" blankPage] h1 h2 h3 h4
    by simp
qed

text \<open>
  Claim C5 as stated, for every sequence of drops, fails: on the fresh level 1 a single drop
  of the first item on the box id \<open>box-9\<close>, which names no box, leaves the boxes empty
  and marks the item placed, so the boxes hold 0 items, 5 items are unplaced and 1 is
  placed, on a level of 6 items.
\<close>

theorem stray_drop_breaks_counts_counterexample:
  "\<not> offered (fresh 1) (DropChocolate ''box-9'' (mkChocolate 0 cocoa))
   \<and> boxTotal (runPage (atLevel 1) strayDrop (fresh 1)) = 0
   \<and> length (unplacedChocolates (runPage (atLevel 1) strayDrop (fresh 1))) = 5
   \<and> placedChocolates (runPage (atLevel 1) strayDrop (fresh 1)) = 1
   \<and> lv_chocolates (currentLevelData (atLevel 1)) = 6
   \<and> boxTotal (runPage (atLevel 1) strayDrop (fresh 1))
        + length (unplacedChocolates (runPage (atLevel 1) strayDrop (fresh 1)))
       \<noteq> lv_chocolates (currentLevelData (atLevel 1))
   \<and> placedChocolates (runPage (atLevel 1) strayDrop (fresh 1))
       \<noteq> boxTotal (runPage (atLevel 1) strayDrop (fresh 1))"
  by code_simp

section \<open>The sample states are reached by play\<close>

text \<open>
  The level 2 sample with 3, 3 and 2 items in three boxes is the page that three clicks
  on the add-box button and eight drops produce from the fresh level, up to the message
  of the level and the sounds played on the way.
\<close>

lemma level2_3_3_2_reached: "runPage (atLevel 2)
   ([AddBox 2001 ''0.25'', AddBox 2002 ''0.5'', AddBox 2003 ''0.75'']
    @ map (DropChocolate ''box-2001-0.25'') (take 3 pool2)
    @ map (DropChocolate ''box-2002-0.5'') (take 3 (drop 3 pool2))
    @ map (DropChocolate ''box-2003-0.75'') (drop 6 pool2)) (fresh 2)
  = level2_3_3_2\<lparr>message := message (fresh 2),
       sounds := replicate 3 ClickSound @ replicate 8 DropSound\<rparr>"
  by code_simp

end
